theory Spec2Isabelle
  imports
    Complex_Main
    "HOL-Library.Sublist"
    "HOL-Library.Multiset"
begin

section \<open>Python values, as far as main.py handles them\<close>

text \<open>
  Everything main.py receives from its two collaborators is decoded JSON: the classifier's
  reply goes through \<^verbatim>\<open>json.loads\<close>, a catalog response through \<^verbatim>\<open>response.json()\<close>.
  The decoded value is a Python \<^verbatim>\<open>None\<close>, \<^verbatim>\<open>bool\<close>, \<^verbatim>\<open>int\<close>, \<^verbatim>\<open>float\<close>, \<^verbatim>\<open>str\<close>,
  \<^verbatim>\<open>list\<close> or \<^verbatim>\<open>dict\<close>. A \<^verbatim>\<open>dict\<close> is the association list of its items in insertion
  order, looked up with \<open>map_of\<close>; its keys are strings. A finite \<^verbatim>\<open>float\<close> is the
  rational it denotes; the decoder also accepts \<^verbatim>\<open>Infinity\<close>, \<^verbatim>\<open>-Infinity\<close> and
  \<^verbatim>\<open>NaN\<close>, which are the three floats that are not finite. A string is a list of
  characters with code points below 256.
\<close>

datatype nonfinite = PosInf | NegInf | NaN

datatype json =
    JNull
  | JBool bool
  | JInt int
  | JFloat rat
  | JNonFinite nonfinite
  | JStr string
  | JArr "json list"
  | JObj "(string \<times> json) list"

text \<open>The exceptions that the operations below raise; none of them is a
  \<^verbatim>\<open>requests.RequestException\<close>.\<close>

datatype exn =
    KeyError json
  | TypeError
  | AttributeError
  | IndexError

text \<open>Sequencing of a computation that may raise.\<close>

definition and_then :: "exn + 'a \<Rightarrow> ('a \<Rightarrow> exn + 'b) \<Rightarrow> exn + 'b" where
  "and_then m f = (case m of Inl e \<Rightarrow> Inl e | Inr x \<Rightarrow> f x)"

text \<open>\<^verbatim>\<open>v.get(k, d)\<close>: only a \<^verbatim>\<open>dict\<close> has the method.\<close>

definition dict_get :: "json \<Rightarrow> string \<Rightarrow> json \<Rightarrow> exn + json" where
  "dict_get v k d =
     (case v of
        JObj kvs \<Rightarrow> Inr (case map_of kvs k of None \<Rightarrow> d | Some x \<Rightarrow> x)
      | _ \<Rightarrow> Inl AttributeError)"

text \<open>\<^verbatim>\<open>v[k]\<close> with a string \<open>k\<close>: a missing key of a \<^verbatim>\<open>dict\<close> is a KeyError, a
  \<^verbatim>\<open>str\<close> or \<^verbatim>\<open>list\<close> wants an integer index, the other values are not subscriptable.\<close>

definition subscript :: "json \<Rightarrow> string \<Rightarrow> exn + json" where
  "subscript v k =
     (case v of
        JObj kvs \<Rightarrow> (case map_of kvs k of None \<Rightarrow> Inl (KeyError (JStr k)) | Some x \<Rightarrow> Inr x)
      | _ \<Rightarrow> Inl TypeError)"

text \<open>\<^verbatim>\<open>v[0]\<close>: the first element of a \<^verbatim>\<open>list\<close>, the first character of a \<^verbatim>\<open>str\<close>; a
  \<^verbatim>\<open>dict\<close> decoded from JSON has no key \<open>0\<close>.\<close>

definition first_item :: "json \<Rightarrow> exn + json" where
  "first_item v =
     (case v of
        JArr xs \<Rightarrow> (case xs of [] \<Rightarrow> Inl IndexError | x # _ \<Rightarrow> Inr x)
      | JStr s \<Rightarrow> (case s of [] \<Rightarrow> Inl IndexError | c # _ \<Rightarrow> Inr (JStr [c]))
      | JObj kvs \<Rightarrow> Inl (KeyError (JInt 0))
      | _ \<Rightarrow> Inl TypeError)"

text \<open>The elements that \<^verbatim>\<open>for x in v[:5]\<close> visits. Slicing a \<^verbatim>\<open>dict\<close> raises (a
  TypeError up to Python 3.11).\<close>

definition first_five :: "json \<Rightarrow> exn + json list" where
  "first_five v =
     (case v of
        JArr xs \<Rightarrow> Inr (take 5 xs)
      | JStr s \<Rightarrow> Inr (map (\<lambda>c. JStr [c]) (take 5 s))
      | _ \<Rightarrow> Inl TypeError)"

text \<open>The elements that iterating over \<open>v\<close> visits: a \<^verbatim>\<open>dict\<close> yields its keys.\<close>

definition iterate :: "json \<Rightarrow> exn + json list" where
  "iterate v =
     (case v of
        JArr xs \<Rightarrow> Inr xs
      | JStr s \<Rightarrow> Inr (map (\<lambda>c. JStr [c]) s)
      | JObj kvs \<Rightarrow> Inr (map (\<lambda>kv. JStr (fst kv)) kvs)
      | _ \<Rightarrow> Inl TypeError)"

text \<open>\<^verbatim>\<open>not v\<close>.\<close>

definition falsy :: "json \<Rightarrow> bool" where
  "falsy v =
     (case v of
        JNull \<Rightarrow> True
      | JBool b \<Rightarrow> \<not> b
      | JInt i \<Rightarrow> i = 0
      | JFloat r \<Rightarrow> r = 0
      | JNonFinite x \<Rightarrow> False
      | JStr s \<Rightarrow> s = []
      | JArr xs \<Rightarrow> xs = []
      | JObj kvs \<Rightarrow> kvs = [])"

text \<open>\<^verbatim>\<open>k in v\<close> for a string \<open>k\<close>: a key of a \<^verbatim>\<open>dict\<close>, an element of a \<^verbatim>\<open>list\<close> (only a
  \<^verbatim>\<open>str\<close> is equal to a \<^verbatim>\<open>str\<close>), a substring of a \<^verbatim>\<open>str\<close>; the other values are not
  iterable.\<close>

definition contains :: "string \<Rightarrow> json \<Rightarrow> exn + bool" where
  "contains k v =
     (case v of
        JObj kvs \<Rightarrow> Inr (map_of kvs k \<noteq> None)
      | JArr xs \<Rightarrow> Inr (JStr k \<in> set xs)
      | JStr s \<Rightarrow> Inr (sublist k s)
      | _ \<Rightarrow> Inl TypeError)"

subsection \<open>Formatting inside an f-string\<close>

function show_nat :: "nat \<Rightarrow> string" where
  "show_nat n =
     (if n < 10 then [''0123456789'' ! n]
      else show_nat (n div 10) @ [''0123456789'' ! (n mod 10)])"
  by pat_completeness auto
termination
  by (relation "measure id") auto

declare show_nat.simps [simp del]

definition show_int :: "int \<Rightarrow> string" where
  "show_int i = (if i < 0 then CHR ''-'' # show_nat (nat (- i)) else show_nat (nat i))"

text \<open>
  \<^verbatim>\<open>f"{v}"\<close> is \<^verbatim>\<open>format(v, "")\<close>: a \<^verbatim>\<open>str\<close> is itself, \<^verbatim>\<open>None\<close> and the booleans are their
  names, an \<^verbatim>\<open>int\<close> its decimal digits, a float that is not finite \<^verbatim>\<open>inf\<close>, \<^verbatim>\<open>-inf\<close>
  or \<^verbatim>\<open>nan\<close>. The text of a finite \<^verbatim>\<open>float\<close>, a \<^verbatim>\<open>list\<close> or a \<^verbatim>\<open>dict\<close> is Python's
  \<^verbatim>\<open>repr\<close> of it, which the program takes from the language: the parameter \<open>repr\<close>
  stands for it.
\<close>

definition fmt :: "(json \<Rightarrow> string) \<Rightarrow> json \<Rightarrow> string" where
  "fmt repr v =
     (case v of
        JStr s \<Rightarrow> s
      | JNull \<Rightarrow> ''None''
      | JBool b \<Rightarrow> (if b then ''True'' else ''False'')
      | JInt i \<Rightarrow> show_int i
      | JNonFinite x \<Rightarrow> (case x of PosInf \<Rightarrow> ''inf'' | NegInf \<Rightarrow> ''-inf'' | NaN \<Rightarrow> ''nan'')
      | _ \<Rightarrow> repr v)"

text \<open>\<^verbatim>\<open>sep.join(xs)\<close>.\<close>

fun join :: "string \<Rightarrow> string list \<Rightarrow> string" where
  "join sep [] = []"
| "join sep [x] = x"
| "join sep (x # y # ys) = x @ sep @ join sep (y # ys)"

section \<open>The catalog service\<close>

text \<open>
  The five GET requests of main.py; the fixed \<^verbatim>\<open>api_key\<close>, \<^verbatim>\<open>language\<close> and \<^verbatim>\<open>page\<close>
  parameters are left out. A search carries the value passed as \<^verbatim>\<open>query\<close>, a fetch by
  identifier the text that the f-string puts into the URL path.
\<close>

datatype request =
    PopularMovies
  | SearchMovie json
  | MovieById string
  | SearchPerson json
  | PersonMovieCredits string

text \<open>
  What \<^verbatim>\<open>requests.get\<close>, \<^verbatim>\<open>raise_for_status\<close> and \<^verbatim>\<open>response.json()\<close> give together:
  a \<^verbatim>\<open>requests.RequestException\<close> with its message (transport failure, non-2xx status, a
  body that is not JSON), or the decoded body.
\<close>

datatype response = RequestException string | Body json

type_synonym catalog = "request \<Rightarrow> response"

text \<open>A handler returns a string or raises; the requests it issued are listed beside the
  outcome, in the order they were sent.\<close>

type_synonym outcome = "(exn + string) \<times> request list"

definition api_error :: "string \<Rightarrow> string" where
  "api_error e = ''Error during API call: '' @ e"

definition quoted :: "string \<Rightarrow> string" where
  "quoted s = [CHR 0x27] @ s @ [CHR 0x27]"

text \<open>A list comprehension \<^verbatim>\<open>[f(x) for x in xs]\<close>: the first element on which \<open>f\<close>
  raises ends it.\<close>

fun collect :: "('a \<Rightarrow> exn + 'b) \<Rightarrow> 'a list \<Rightarrow> exn + 'b list" where
  "collect f [] = Inr []"
| "collect f (x # xs) =
     and_then (f x) (\<lambda>y. and_then (collect f xs) (\<lambda>ys. Inr (y # ys)))"

section \<open>The workflows\<close>

subsection \<open>handle_get_popular_movies\<close>

definition movie_line :: "(json \<Rightarrow> string) \<Rightarrow> json \<Rightarrow> exn + string" where
  "movie_line repr movie =
     and_then (subscript movie ''title'') (\<lambda>title.
     and_then (subscript movie ''vote_average'') (\<lambda>vote_average.
       Inr (''- '' @ fmt repr title @ '' (Rating: '' @ fmt repr vote_average @ '')'')))"

definition handle_get_popular_movies :: "catalog \<Rightarrow> (json \<Rightarrow> string) \<Rightarrow> outcome" where
  "handle_get_popular_movies cat repr =
     (case cat PopularMovies of
        RequestException e \<Rightarrow> (Inr (api_error e), [PopularMovies])
      | Body b \<Rightarrow>
          (and_then (dict_get b ''results'' (JArr [])) (\<lambda>movies.
           and_then (first_five movies) (\<lambda>top.
           and_then (collect (movie_line repr) top) (\<lambda>movie_list.
             Inr (''The top 5 popular movies now:\<newline>'' @ join ''\<newline>'' movie_list)))),
           [PopularMovies]))"

subsection \<open>handle_get_movie_details\<close>

definition details_text :: "(json \<Rightarrow> string) \<Rightarrow> json \<Rightarrow> exn + string" where
  "details_text repr details =
     and_then (subscript details ''title'') (\<lambda>title.
     and_then (subscript details ''overview'') (\<lambda>overview.
     and_then (subscript details ''vote_average'') (\<lambda>vote_average.
     and_then (subscript details ''release_date'') (\<lambda>release_date.
       Inr (''Details of '' @ quoted (fmt repr title) @ '' movie:\<newline>''
            @ ''Overview: '' @ fmt repr overview @ ''\<newline>''
            @ ''Vote average: '' @ fmt repr vote_average @ ''/10\<newline>''
            @ ''Release date: '' @ fmt repr release_date)))))"

definition handle_get_movie_details :: "catalog \<Rightarrow> (json \<Rightarrow> string) \<Rightarrow> json \<Rightarrow> outcome" where
  "handle_get_movie_details cat repr movie_name =
     (case cat (SearchMovie movie_name) of
        RequestException e \<Rightarrow> (Inr (api_error e), [SearchMovie movie_name])
      | Body b \<Rightarrow>
          (case dict_get b ''results'' (JArr []) of
             Inl x \<Rightarrow> (Inl x, [SearchMovie movie_name])
           | Inr results \<Rightarrow>
               if falsy results
               then (Inr (''No movie titled '' @ quoted (fmt repr movie_name) @ ''.''),
                     [SearchMovie movie_name])
               else
                 (case and_then (first_item results) (\<lambda>r. subscript r ''id'') of
                    Inl x \<Rightarrow> (Inl x, [SearchMovie movie_name])
                  | Inr movie_id \<Rightarrow>
                      (case cat (MovieById (fmt repr movie_id)) of
                         RequestException e \<Rightarrow>
                           (Inr (api_error e),
                            [SearchMovie movie_name, MovieById (fmt repr movie_id)])
                       | Body details \<Rightarrow>
                           (details_text repr details,
                            [SearchMovie movie_name, MovieById (fmt repr movie_id)])))))"

subsection \<open>handle_get_actor_credits\<close>

text \<open>The sort key \<^verbatim>\<open>lambda x: x.get("popularity", 0)\<close>.\<close>

definition popularity :: "json \<Rightarrow> exn + json" where
  "popularity x = dict_get x ''popularity'' (JInt 0)"

text \<open>The number that a key denotes when Python compares it with \<^verbatim>\<open><\<close>: a finite
  \<^verbatim>\<open>float\<close> or an \<^verbatim>\<open>int\<close> is its value, \<^verbatim>\<open>True\<close> is 1 and \<^verbatim>\<open>False\<close> is 0. Python
  compares an \<^verbatim>\<open>int\<close> with a \<^verbatim>\<open>float\<close> exactly.\<close>

definition number :: "json \<Rightarrow> rat option" where
  "number k =
     (case k of
        JBool b \<Rightarrow> Some (if b then 1 else 0)
      | JInt i \<Rightarrow> Some (of_int i)
      | JFloat r \<Rightarrow> Some r
      | _ \<Rightarrow> None)"

definition number_key :: "(json \<Rightarrow> exn + json) \<Rightarrow> json \<Rightarrow> rat" where
  "number_key key x =
     (case key x of
        Inr k \<Rightarrow> (case number k of Some q \<Rightarrow> q | None \<Rightarrow> 0)
      | Inl _ \<Rightarrow> 0)"

text \<open>Reverse, sort ascending with a stable sort, reverse.\<close>

definition descending :: "('a \<Rightarrow> 'k::linorder) \<Rightarrow> 'a list \<Rightarrow> 'a list" where
  "descending f xs = rev (sort_key f (rev xs))"

text \<open>
  \<^verbatim>\<open>sorted(xs, key=key, reverse=True)\<close>. Python computes every key first, so a key that
  raises ends the call. With fewer than two elements nothing is compared and the list is
  returned as it is. When every key is a finite number, Python reverses the list, sorts it
  ascending by the keys with a stable sort, and reverses the result. For any other keys
  the answer is the language's: strings and lists are compared and ranked, \<^verbatim>\<open>None\<close>, a
  \<^verbatim>\<open>dict\<close> or keys of different kinds raise TypeError, and with NaN the order depends on
  the comparisons the sort happens to make. The parameter \<open>sorted_rest\<close> stands for that
  answer, given the keys and the elements.
\<close>

definition sorted_reverse ::
  "(json list \<Rightarrow> json list \<Rightarrow> exn + json list) \<Rightarrow> (json \<Rightarrow> exn + json) \<Rightarrow> json list
    \<Rightarrow> exn + json list" where
  "sorted_reverse sorted_rest key xs =
     and_then (collect key xs) (\<lambda>keys.
       if length xs \<le> 1 then Inr xs
       else if list_all (\<lambda>k. number k \<noteq> None) keys
         then Inr (descending (number_key key) xs)
       else sorted_rest keys xs)"

definition credit_line :: "(json \<Rightarrow> string) \<Rightarrow> json \<Rightarrow> exn + string" where
  "credit_line repr movie =
     and_then (subscript movie ''title'') (\<lambda>title.
     and_then (subscript movie ''character'') (\<lambda>character.
       Inr (''- '' @ fmt repr title @ '' (Character: '' @ fmt repr character @ '')'')))"

definition credits_text ::
  "(json \<Rightarrow> string) \<Rightarrow> (json list \<Rightarrow> json list \<Rightarrow> exn + json list) \<Rightarrow> json \<Rightarrow> json
    \<Rightarrow> json \<Rightarrow> exn + string" where
  "credits_text repr sorted_rest actor_name person_id body =
     and_then (dict_get body ''cast'' (JArr [])) (\<lambda>credits.
     and_then (iterate credits) (\<lambda>items.
     and_then (sorted_reverse sorted_rest popularity items) (\<lambda>ranked.
     and_then (collect (credit_line repr) (take 5 ranked)) (\<lambda>movie_list.
       Inr (quoted (fmt repr actor_name) @ '' (ID: '' @ fmt repr person_id @ '')''
            @ [CHR 0x27] @ ''s top movies:\<newline>'' @ join ''\<newline>'' movie_list)))))"

definition handle_get_actor_credits ::
  "catalog \<Rightarrow> (json \<Rightarrow> string) \<Rightarrow> (json list \<Rightarrow> json list \<Rightarrow> exn + json list) \<Rightarrow> json
    \<Rightarrow> outcome" where
  "handle_get_actor_credits cat repr sorted_rest actor_name =
     (case cat (SearchPerson actor_name) of
        RequestException e \<Rightarrow> (Inr (api_error e), [SearchPerson actor_name])
      | Body b \<Rightarrow>
          (case dict_get b ''results'' (JArr []) of
             Inl x \<Rightarrow> (Inl x, [SearchPerson actor_name])
           | Inr results \<Rightarrow>
               if falsy results
               then (Inr (''No actor named '' @ quoted (fmt repr actor_name) @ ''.''),
                     [SearchPerson actor_name])
               else
                 (case and_then (first_item results) (\<lambda>r. subscript r ''id'') of
                    Inl x \<Rightarrow> (Inl x, [SearchPerson actor_name])
                  | Inr person_id \<Rightarrow>
                      (case cat (PersonMovieCredits (fmt repr person_id)) of
                         RequestException e \<Rightarrow>
                           (Inr (api_error e),
                            [SearchPerson actor_name, PersonMovieCredits (fmt repr person_id)])
                       | Body credits \<Rightarrow>
                           (credits_text repr sorted_rest actor_name person_id credits,
                            [SearchPerson actor_name,
                             PersonMovieCredits (fmt repr person_id)])))))"

section \<open>The classifier's reply\<close>










section \<open>One turn of main\<close>


text \<open>The chain of conditionals that selects the handler.\<close>

definition dispatch ::
  "catalog \<Rightarrow> (json \<Rightarrow> string) \<Rightarrow> (json list \<Rightarrow> json list \<Rightarrow> exn + json list) \<Rightarrow> json
    \<Rightarrow> json \<Rightarrow> outcome" where
  "dispatch cat repr sorted_rest function_name parameters =
     (if function_name = JStr ''get_popular_movies'' then handle_get_popular_movies cat repr
      else if function_name = JStr ''get_movie_details'' then
        (case contains ''movie_name'' parameters of
           Inl x \<Rightarrow> (Inl x, [])
         | Inr present \<Rightarrow>
             if present then
               (case subscript parameters ''movie_name'' of
                  Inl x \<Rightarrow> (Inl x, [])
                | Inr movie_name \<Rightarrow> handle_get_movie_details cat repr movie_name)
             else (Inr ''LLM could not extract the movie name.'', []))
      else if function_name = JStr ''get_actor_credits'' then
        (case contains ''actor_name'' parameters of
           Inl x \<Rightarrow> (Inl x, [])
         | Inr present \<Rightarrow>
             if present then
               (case subscript parameters ''actor_name'' of
                  Inl x \<Rightarrow> (Inl x, [])
                | Inr actor_name \<Rightarrow> handle_get_actor_credits cat repr sorted_rest actor_name)
             else (Inr ''LLM could not extract the actor name.'', []))
      else if function_name = JStr ''unsupported_request'' then
        (Inr (''This request is not supported. Please ask about popular movies, ''
              @ ''movie details, or actor credits.''), [])
      else (Inr (''No function called '' @ quoted (fmt repr function_name) @ ''.''), []))"


section \<open>Vocabulary of the statements\<close>

text \<open>
  The value of a field of a record, and whether the record has it. A record is a
  \<^verbatim>\<open>dict\<close>; anything else has no field.
\<close>

definition field :: "json \<Rightarrow> string \<Rightarrow> json" where
  "field v k =
     (case v of
        JObj kvs \<Rightarrow> (case map_of kvs k of Some x \<Rightarrow> x | None \<Rightarrow> JNull)
      | _ \<Rightarrow> JNull)"

definition has_field :: "json \<Rightarrow> string \<Rightarrow> bool" where
  "has_field v k = (case v of JObj kvs \<Rightarrow> map_of kvs k \<noteq> None | _ \<Rightarrow> False)"

text \<open>The two kinds of lines, written from the fields.\<close>

definition rating_line :: "(json \<Rightarrow> string) \<Rightarrow> json \<Rightarrow> string" where
  "rating_line repr m =
     ''- '' @ fmt repr (field m ''title'')
     @ '' (Rating: '' @ fmt repr (field m ''vote_average'') @ '')''"

definition character_line :: "(json \<Rightarrow> string) \<Rightarrow> json \<Rightarrow> string" where
  "character_line repr m =
     ''- '' @ fmt repr (field m ''title'')
     @ '' (Character: '' @ fmt repr (field m ''character'') @ '')''"

text \<open>
  The popularity of a credit record, read from its \<open>popularity\<close> field: the number the
  field holds, and 0 for a record without the field. A record's popularity is numeric
  when the field, if the record has it, holds a finite number; it is positive when the
  record has the field and the number is above 0.
\<close>

definition is_number :: "json \<Rightarrow> bool" where
  "is_number v =
     (case v of JBool b \<Rightarrow> True | JInt i \<Rightarrow> True | JFloat r \<Rightarrow> True | _ \<Rightarrow> False)"

definition value_of :: "json \<Rightarrow> rat" where
  "value_of v =
     (case v of
        JBool b \<Rightarrow> (if b then 1 else 0)
      | JInt i \<Rightarrow> of_int i
      | JFloat r \<Rightarrow> r
      | _ \<Rightarrow> 0)"

definition popularity_of :: "json \<Rightarrow> rat" where
  "popularity_of c = (if has_field c ''popularity'' then value_of (field c ''popularity'') else 0)"

definition numeric_popularity :: "json \<Rightarrow> bool" where
  "numeric_popularity c =
     (case c of
        JObj fs \<Rightarrow> (case map_of fs ''popularity'' of None \<Rightarrow> True | Some p \<Rightarrow> is_number p)
      | _ \<Rightarrow> False)"

definition positive_popularity :: "json \<Rightarrow> bool" where
  "positive_popularity c \<longleftrightarrow> has_field c ''popularity'' \<and> 0 < value_of (field c ''popularity'')"

text \<open>A record without the field, and the same record with the field set to 0.\<close>

definition lacks_popularity :: "json \<Rightarrow> bool" where
  "lacks_popularity c =
     (case c of JObj fs \<Rightarrow> map_of fs ''popularity'' = None | _ \<Rightarrow> False)"

definition with_zero :: "json \<Rightarrow> json" where
  "with_zero c =
     (if lacks_popularity c
      then (case c of JObj fs \<Rightarrow> JObj (fs @ [(''popularity'', JInt 0)]) | _ \<Rightarrow> c)
      else c)"

text \<open>The three actions for which main has a workflow.\<close>

definition registered :: "json \<Rightarrow> bool" where
  "registered a \<longleftrightarrow>
     a \<in> set [JStr ''get_popular_movies'', JStr ''get_movie_details'',
              JStr ''get_actor_credits'']"

section \<open>Example inputs\<close>

text \<open>A small catalog: seven popular movies, one movie and one person that searches find,
  seven credits of which two carry no popularity, two have the same one, and the one
  that ranks last has no title.\<close>

definition movie :: "string \<Rightarrow> json \<Rightarrow> json" where
  "movie title rating =
     JObj [(''id'', JInt 1), (''title'', JStr title), (''vote_average'', rating)]"

definition credit :: "string \<Rightarrow> string \<Rightarrow> json option \<Rightarrow> json" where
  "credit title role pop =
     JObj ([(''title'', JStr title), (''character'', JStr role)]
           @ (case pop of None \<Rightarrow> [] | Some p \<Rightarrow> [(''popularity'', p)]))"

definition example_movies :: "json list" where
  "example_movies =
     [movie ''Dune'' (JInt 8), movie ''Heat'' (JFloat (83 / 10)), movie ''Alien'' (JInt 8),
      movie ''Jaws'' (JInt 7), movie ''Ran'' (JInt 8), movie ''Up'' (JInt 7),
      movie ''Big'' (JInt 7)]"

definition example_credits :: "json list" where
  "example_credits =
     [credit ''Heat'' ''Vincent'' (Some (JInt 30)),
      credit ''Serpico'' ''Frank'' None,
      credit ''Scarface'' ''Tony'' (Some (JFloat (91 / 2))),
      credit ''Insomnia'' ''Will'' (Some (JInt 30)),
      JObj [(''character'', JStr ''Steve'')],
      credit ''Ricochet'' ''Nick'' (Some (JInt 12)),
      credit ''Donnie Brasco'' ''Lefty'' (Some (JInt 44))]"

definition example_details :: json where
  "example_details =
     JObj [(''title'', JStr ''Heat''), (''overview'', JStr ''A heist.''),
           (''vote_average'', JFloat (83 / 10)), (''release_date'', JStr ''1995-12-15'')]"

definition example_catalog :: catalog where
  "example_catalog r =
     (case r of
        PopularMovies \<Rightarrow> Body (JObj [(''page'', JInt 1), (''results'', JArr example_movies)])
      | SearchMovie q \<Rightarrow>
          (if q = JStr ''Heat''
           then Body (JObj [(''results'',
                  JArr [JObj [(''id'', JInt 949), (''title'', JStr ''Heat'')],
                        JObj [(''id'', JInt 27), (''title'', JStr ''The Heat'')]])])
           else Body (JObj [(''results'', JArr [])]))
      | MovieById i \<Rightarrow>
          (if i = ''949'' then Body example_details
           else RequestException ''404 Client Error'')
      | SearchPerson q \<Rightarrow>
          (if q = JStr ''Al Pacino''
           then Body (JObj [(''results'',
                  JArr [JObj [(''id'', JInt 1158), (''name'', JStr ''Al Pacino'')]])])
           else Body (JObj [(''results'', JArr [])]))
      | PersonMovieCredits i \<Rightarrow>
          (if i = ''1158'' then Body (JObj [(''cast'', JArr example_credits)])
           else RequestException ''404 Client Error''))"

text \<open>Python writes the one float of the examples as 8.3.\<close>

definition example_repr :: "json \<Rightarrow> string" where
  "example_repr v = (if v = JFloat (83 / 10) then ''8.3'' else ''?'')"

text \<open>The ranking of the example credits.\<close>

definition example_ranked :: "json list" where
  "example_ranked =
     [credit ''Scarface'' ''Tony'' (Some (JFloat (91 / 2))),
      credit ''Donnie Brasco'' ''Lefty'' (Some (JInt 44)),
      credit ''Heat'' ''Vincent'' (Some (JInt 30)),
      credit ''Insomnia'' ''Will'' (Some (JInt 30)),
      credit ''Ricochet'' ''Nick'' (Some (JInt 12)),
      credit ''Serpico'' ''Frank'' None,
      JObj [(''character'', JStr ''Steve'')]]"

text \<open>An answer for the keys that are not all finite numbers; the examples have none.\<close>

definition example_sorted_rest :: "json list \<Rightarrow> json list \<Rightarrow> exn + json list" where
  "example_sorted_rest keys xs = Inl TypeError"

section \<open>Basic facts\<close>

lemma and_then_Inr [simp]: "and_then (Inr x) f = f x"
  by (simp add: and_then_def)

lemma and_then_Inl [simp]: "and_then (Inl e) f = Inl e"
  by (simp add: and_then_def)

lemma collect_map:
  "(\<And>x. x \<in> set xs \<Longrightarrow> f x = Inr (g x)) \<Longrightarrow> collect f xs = Inr (map g xs)"
  by (induction xs) simp_all

lemma subscript_has_field: "has_field v k \<Longrightarrow> subscript v k = Inr (field v k)"
  by (auto simp: has_field_def subscript_def field_def split: json.splits option.splits)

lemma show_nat_digit: "n < 10 \<Longrightarrow> show_nat n = [''0123456789'' ! n]"
  by (simp add: show_nat.simps)

lemma show_nat_step:
  "10 \<le> n \<Longrightarrow> show_nat n = show_nat (n div 10) @ [''0123456789'' ! (n mod 10)]"
  by (subst show_nat.simps) simp

lemma movie_line_ok:
  "has_field m ''title'' \<Longrightarrow> has_field m ''vote_average''
    \<Longrightarrow> movie_line repr m = Inr (rating_line repr m)"
  by (simp add: movie_line_def rating_line_def subscript_has_field)

lemma credit_line_ok:
  "has_field m ''title'' \<Longrightarrow> has_field m ''character''
    \<Longrightarrow> credit_line repr m = Inr (character_line repr m)"
  by (simp add: credit_line_def character_line_def subscript_has_field)

lemma first_match_id:
  "has_field first ''id'' \<Longrightarrow>
    and_then (first_item (JArr (first # others))) (\<lambda>r. subscript r ''id'')
      = Inr (field first ''id'')"
  by (simp add: first_item_def subscript_has_field)

lemma movie_details_calls: "snd (handle_get_movie_details cat repr v) \<noteq> []"
  by (simp add: handle_get_movie_details_def split: response.splits sum.splits)

lemma actor_credits_calls: "snd (handle_get_actor_credits cat repr sorted_rest v) \<noteq> []"
  by (simp add: handle_get_actor_credits_def split: response.splits sum.splits)

subsection \<open>The descending stable sort\<close>

lemma mset_descending: "mset (descending f xs) = mset xs"
  by (simp add: descending_def)

lemma set_descending: "set (descending f xs) = set xs"
  by (simp add: descending_def)

lemma length_descending: "length (descending f xs) = length xs"
  by (simp add: descending_def)

lemma sorted_descending: "sorted (rev (map f (descending f xs)))"
  by (simp add: descending_def rev_map)

lemma stable_descending:
  "filter (\<lambda>x. f x = k) (descending f xs) = filter (\<lambda>x. f x = k) xs"
  by (simp add: descending_def sort_key_stable flip: rev_filter)

lemma filter_descending:
  assumes "\<And>x. x \<in> set xs \<Longrightarrow> P x \<Longrightarrow> f x = k"
  shows "filter P (descending f xs) = filter P xs"
proof -
  have "filter P (descending f xs) = filter P (filter (\<lambda>x. f x = k) (descending f xs))"
    using assms by (auto simp: set_descending intro!: filter_cong)
  also have "\<dots> = filter P (filter (\<lambda>x. f x = k) xs)"
    by (simp only: stable_descending)
  also have "\<dots> = filter P xs"
    using assms by (auto intro!: filter_cong)
  finally show ?thesis .
qed

lemma descending_nth:
  assumes "i \<le> j" "j < length xs"
  shows "f (descending f xs ! j) \<le> f (descending f xs ! i)"
proof -
  have "map f (descending f xs) ! j \<le> map f (descending f xs) ! i"
    using sorted_descending [of f xs] assms
    by (simp only: sorted_rev_iff_nth_mono length_map length_descending)
  then show ?thesis
    using assms by (simp add: length_descending)
qed

lemma insort_key_map:
  "insort_key f (g x) (map g xs) = map g (insort_key (\<lambda>y. f (g y)) x xs)"
  by (induction xs) simp_all

lemma sort_key_map: "sort_key f (map g xs) = map g (sort_key (\<lambda>y. f (g y)) xs)"
  by (induction xs) (simp_all add: insort_key_map)

lemma descending_map: "descending f (map g xs) = map g (descending (\<lambda>y. f (g y)) xs)"
  by (simp add: descending_def sort_key_map rev_map)

lemma descending_short: "length xs \<le> 1 \<Longrightarrow> descending f xs = xs"
  by (cases xs) (simp_all add: descending_def)

lemma descending_unique:
  assumes "mset ys = mset xs"
    and "sorted (rev (map f ys))"
    and "\<And>k. filter (\<lambda>x. f x = k) ys = filter (\<lambda>x. f x = k) xs"
  shows "descending f xs = ys"
proof -
  have "sort_key f (rev xs) = rev ys"
  proof (rule properties_for_sort_key)
    show "mset (rev ys) = mset (rev xs)"
      using assms(1) by simp
    show "sorted (map f (rev ys))"
      using assms(2) by (simp add: rev_map)
    show "filter (\<lambda>x. f k = f x) (rev ys) = filter (\<lambda>x. f k = f x) (rev xs)" for k
    proof -
      have "(\<lambda>x. f k = f x) = (\<lambda>x. f x = f k)"
        by auto
      then show ?thesis
        using assms(3) [of "f k"] by (simp flip: rev_filter)
    qed
  qed
  then show ?thesis
    by (simp add: descending_def)
qed

lemma sorted_reverse_numbers:
  assumes "\<And>x. x \<in> set xs \<Longrightarrow> \<exists>k. key x = Inr k \<and> number k \<noteq> None"
  shows "sorted_reverse sorted_rest key xs = Inr (descending (number_key key) xs)"
proof -
  have keys: "collect key xs = Inr (map (\<lambda>x. projr (key x)) xs)"
  proof (rule collect_map)
    fix x assume "x \<in> set xs"
    then obtain k where "key x = Inr k" using assms by blast
    then show "key x = Inr (projr (key x))" by simp
  qed
  have nums: "list_all (\<lambda>k. number k \<noteq> None) (map (\<lambda>x. projr (key x)) xs)"
  proof -
    have "number (projr (key x)) \<noteq> None" if mem: "x \<in> set xs" for x
    proof -
      obtain k where "key x = Inr k" "number k \<noteq> None" using assms mem by blast
      then show ?thesis by simp
    qed
    then show ?thesis by (simp add: list_all_iff)
  qed
  show ?thesis
    using keys nums descending_short [of xs "number_key key"]
    by (simp add: sorted_reverse_def)
qed

subsection \<open>Ranking by popularity\<close>

lemma number_value: "is_number p \<Longrightarrow> number p = Some (value_of p)"
  by (cases p) (simp_all add: is_number_def number_def value_of_def)

lemma numeric_popularity_key:
  assumes "numeric_popularity c"
  shows "popularity c = Inr (case c of JObj fs \<Rightarrow>
           (case map_of fs ''popularity'' of None \<Rightarrow> JInt 0 | Some p \<Rightarrow> p) | _ \<Rightarrow> JNull)"
    and "number_key popularity c = popularity_of c"
proof -
  obtain fs where c: "c = JObj fs"
    using assms by (cases c) (simp_all add: numeric_popularity_def)
  show "popularity c = Inr (case c of JObj fs \<Rightarrow>
           (case map_of fs ''popularity'' of None \<Rightarrow> JInt 0 | Some p \<Rightarrow> p) | _ \<Rightarrow> JNull)"
    by (simp add: c popularity_def dict_get_def)
  show "number_key popularity c = popularity_of c"
  proof (cases "map_of fs ''popularity''")
    case None
    then show ?thesis
      by (simp add: c number_key_def popularity_def dict_get_def number_def popularity_of_def
          has_field_def)
  next
    case (Some p)
    then have "is_number p"
      using assms by (simp add: c numeric_popularity_def)
    then show ?thesis
      using Some
      by (simp add: c number_key_def popularity_def dict_get_def number_value popularity_of_def
          has_field_def field_def)
  qed
qed

lemma numeric_popularityD:
  assumes "numeric_popularity c"
  shows "\<exists>k. popularity c = Inr k \<and> number k \<noteq> None"
proof -
  obtain fs where c: "c = JObj fs"
    using assms by (cases c) (simp_all add: numeric_popularity_def)
  show ?thesis
  proof (cases "map_of fs ''popularity''")
    case None
    then show ?thesis
      by (simp add: c popularity_def dict_get_def number_def)
  next
    case (Some p)
    then have "is_number p"
      using assms by (simp add: c numeric_popularity_def)
    then show ?thesis
      using Some by (simp add: c popularity_def dict_get_def number_value)
  qed
qed

lemma popularity_lacks:
  assumes "lacks_popularity c"
  shows "popularity c = Inr (JInt 0)" and "popularity (with_zero c) = Inr (JInt 0)"
proof -
  obtain fs where c: "c = JObj fs" and none: "map_of fs ''popularity'' = None"
    using assms by (auto simp: lacks_popularity_def split: json.splits)
  show "popularity c = Inr (JInt 0)"
    by (simp add: c none popularity_def dict_get_def)
  have "map_of (fs @ [(''popularity'', JInt 0)]) ''popularity'' = Some (JInt 0)"
    using none by (simp add: map_add_def)
  then show "popularity (with_zero c) = Inr (JInt 0)"
    using assms by (simp add: c with_zero_def popularity_def dict_get_def)
qed

lemma with_zero_id: "\<not> lacks_popularity c \<Longrightarrow> with_zero c = c"
  by (simp add: with_zero_def)

lemma key_lacks: "lacks_popularity c \<Longrightarrow> number_key popularity c = 0"
  by (simp add: number_key_def popularity_lacks number_def)

lemma key_with_zero: "number_key popularity (with_zero c) = number_key popularity c"
  by (cases "lacks_popularity c")
    (simp_all add: number_key_def popularity_lacks with_zero_id)

lemma numeric_with_zero:
  assumes "numeric_popularity c"
  shows "\<exists>k. popularity (with_zero c) = Inr k \<and> number k \<noteq> None"
proof (cases "lacks_popularity c")
  case True
  then show ?thesis
    by (simp add: popularity_lacks number_def)
next
  case False
  then have "with_zero c = c"
    by (rule with_zero_id)
  then show ?thesis
    using numeric_popularityD [OF assms] by (simp only:)
qed

lemma key_positive:
  assumes "numeric_popularity c" and "positive_popularity c"
  shows "0 < number_key popularity c"
  using assms by (simp add: numeric_popularity_key positive_popularity_def popularity_of_def)

lemma sorted_reverse_popularity:
  assumes "\<forall>c\<in>set credits. numeric_popularity c"
  shows "sorted_reverse sorted_rest popularity credits
    = Inr (descending (number_key popularity) credits)"
  using assms by (intro sorted_reverse_numbers numeric_popularityD) blast

lemma ranking_unique:
  assumes "\<forall>c\<in>set credits. numeric_popularity c"
    and "mset ranked = mset credits"
    and "sorted (rev (map popularity_of ranked))"
    and "\<forall>k. filter (\<lambda>c. popularity_of c = k) ranked = filter (\<lambda>c. popularity_of c = k) credits"
  shows "descending (number_key popularity) credits = ranked"
proof (rule descending_unique)
  have same: "set ranked = set credits"
    using assms(2) by (rule mset_eq_setD)
  have key: "number_key popularity c = popularity_of c" if "c \<in> set credits" for c
    using assms(1) that by (simp add: numeric_popularity_key)
  show "mset ranked = mset credits"
    by (rule assms(2))
  have "map (number_key popularity) ranked = map popularity_of ranked"
    using key same by (intro map_cong) simp_all
  then show "sorted (rev (map (number_key popularity) ranked))"
    using assms(3) by (simp only:)
  show "filter (\<lambda>c. number_key popularity c = k) ranked
      = filter (\<lambda>c. number_key popularity c = k) credits" for k
  proof -
    have "filter (\<lambda>c. number_key popularity c = k) ranked
        = filter (\<lambda>c. popularity_of c = k) ranked"
      using key same by (intro filter_cong) simp_all
    also have "\<dots> = filter (\<lambda>c. popularity_of c = k) credits"
      using assms(4) by simp
    also have "\<dots> = filter (\<lambda>c. number_key popularity c = k) credits"
      using key by (intro filter_cong) simp_all
    finally show ?thesis .
  qed
qed

lemma ranking_exists:
  assumes "\<forall>c\<in>set credits. numeric_popularity c"
  shows "\<exists>ranked. mset ranked = mset credits \<and> sorted (rev (map popularity_of ranked))
    \<and> (\<forall>k. filter (\<lambda>c. popularity_of c = k) ranked = filter (\<lambda>c. popularity_of c = k) credits)"
proof -
  define ranked where "ranked = descending popularity_of credits"
  have "mset ranked = mset credits"
    by (simp add: ranked_def mset_descending)
  moreover have "sorted (rev (map popularity_of ranked))"
    by (simp add: ranked_def sorted_descending)
  moreover have "\<forall>k. filter (\<lambda>c. popularity_of c = k) ranked
      = filter (\<lambda>c. popularity_of c = k) credits"
    by (simp add: ranked_def stable_descending)
  ultimately show ?thesis by blast
qed

subsection \<open>The intent that reaches main\<close>



section \<open>The example, computed\<close>

lemma example_keys:
  "collect popularity example_credits =
     Inr [JInt 30, JInt 0, JFloat (91 / 2), JInt 30, JInt 0, JInt 12, JInt 44]"
  by (simp add: example_credits_def credit_def popularity_def dict_get_def)

lemma example_ranking:
  "sorted_reverse sorted_rest popularity example_credits = Inr example_ranked"
proof -
  have ranked: "descending (number_key popularity) example_credits = example_ranked"
    by (simp add: descending_def example_credits_def example_ranked_def credit_def
        number_key_def popularity_def dict_get_def number_def)
  have long: "\<not> length example_credits \<le> 1"
    by (simp add: example_credits_def)
  have nums: "list_all (\<lambda>k. number k \<noteq> None)
      [JInt 30, JInt 0, JFloat (91 / 2), JInt 30, JInt 0, JInt 12, JInt 44]"
    by (simp add: number_def del: not_None_eq)
  show ?thesis
    unfolding sorted_reverse_def example_keys and_then_Inr
    by (simp only: long nums ranked if_True if_False)
qed

section \<open>The claims\<close>



text \<open>
  Claim C3, as stated: an action that is not registered is answered with one and the same
  message, whether it is \<open>unsupported_request\<close> or any other string. The answers to
  \<open>unsupported_request\<close> and to \<open>tell_joke\<close> differ.
\<close>

theorem unregistered_messages_differ:
  "\<not> registered (JStr ''unsupported_request'') \<and> \<not> registered (JStr ''tell_joke'')
   \<and> dispatch example_catalog example_repr example_sorted_rest
       (JStr ''unsupported_request'') (JObj [])
     \<noteq> dispatch example_catalog example_repr example_sorted_rest (JStr ''tell_joke'') (JObj [])"
  by (simp add: registered_def dispatch_def quoted_def fmt_def)

text \<open>
  Claim C3, amended: for every action that is not one of the three registered ones, and
  whatever the parameters, dispatch issues no catalog request and answers with a message
  that depends on the action: \<open>unsupported_request\<close> gets the fixed sentence "This request
  is not supported. ...", any other action gets "No function called '<action>'.".
\<close>

theorem unregistered_action_messages:
  assumes "\<not> registered a"
  shows "dispatch cat repr sorted_rest a ps =
     (Inr (if a = JStr ''unsupported_request''
           then ''This request is not supported. Please ask about popular movies, ''
                @ ''movie details, or actor credits.''
           else ''No function called '' @ quoted (fmt repr a) @ ''.''), [])"
  using assms by (simp add: dispatch_def registered_def)

theorem unregistered_action_messages_witness:
  "\<not> registered (JStr ''tell_joke'')
   \<and> dispatch example_catalog example_repr example_sorted_rest (JStr ''tell_joke'') (JObj [])
       = (Inr ''No function called 'tell_joke'.'', [])"
  using unregistered_action_messages
    [of "JStr ''tell_joke''" example_catalog example_repr example_sorted_rest "JObj []"]
  by (simp add: registered_def quoted_def fmt_def)

text \<open>
  Claim C4: a workflow never throws, whatever the catalog returns, also when a record
  lacks \<open>title\<close>, \<open>character\<close> or \<open>id\<close>. The handlers catch \<^verbatim>\<open>requests.RequestException\<close>
  only. On a popular-movies response whose first record has no title,
  \<open>handle_get_popular_movies\<close> raises KeyError; so does the turn that dispatched to it, and
  main has no handler around it.
\<close>

theorem missing_title_raises:
  "handle_get_popular_movies
     (\<lambda>r. Body (JObj [(''results'', JArr [JObj [(''vote_average'', JInt 8)]])])) example_repr
     = (Inl (KeyError (JStr ''title'')), [PopularMovies])
   \<and> dispatch
     (\<lambda>r. Body (JObj [(''results'', JArr [JObj [(''vote_average'', JInt 8)]])])) example_repr
     example_sorted_rest (JStr ''get_popular_movies'') (JObj [])
     = (Inl (KeyError (JStr ''title'')), [PopularMovies])"
  by (simp add: dispatch_def handle_get_popular_movies_def dict_get_def first_five_def
      movie_line_def subscript_def)

text \<open>
  Claim C5: when the action is \<open>get_movie_details\<close> and the parameters have no
  \<open>movie_name\<close>, or the action is \<open>get_actor_credits\<close> and the parameters have no
  \<open>actor_name\<close>, dispatch answers that the name is missing and issues no catalog request.
  The workflow was not run: a run of either workflow leaves at least one request.
\<close>

theorem missing_parameter_no_calls:
  "(map_of ps ''movie_name'' = None \<longrightarrow>
      dispatch cat repr sorted_rest (JStr ''get_movie_details'') (JObj ps) =
        (Inr ''LLM could not extract the movie name.'', []))
   \<and> (map_of ps ''actor_name'' = None \<longrightarrow>
      dispatch cat repr sorted_rest (JStr ''get_actor_credits'') (JObj ps) =
        (Inr ''LLM could not extract the actor name.'', []))
   \<and> snd (handle_get_movie_details cat repr v) \<noteq> []
   \<and> snd (handle_get_actor_credits cat repr sorted_rest v) \<noteq> []"
  by (simp add: dispatch_def contains_def movie_details_calls actor_credits_calls)

theorem missing_parameter_no_calls_witness:
  "map_of [(''year'', JStr ''1995'')] ''movie_name'' = None
   \<and> dispatch example_catalog example_repr example_sorted_rest (JStr ''get_movie_details'')
        (JObj [(''year'', JStr ''1995'')])
       = (Inr ''LLM could not extract the movie name.'', [])
   \<and> map_of [(''year'', JStr ''1995'')] ''actor_name'' = None
   \<and> dispatch example_catalog example_repr example_sorted_rest (JStr ''get_actor_credits'')
        (JObj [(''year'', JStr ''1995'')])
       = (Inr ''LLM could not extract the actor name.'', [])"
  using missing_parameter_no_calls
    [of "[(''year'', JStr ''1995'')]" example_catalog example_repr example_sorted_rest JNull]
  by simp

text \<open>
  Claim C6: on a popular-movies response whose \<open>results\<close> is a list of records,
  \<open>handle_get_popular_movies\<close> issues the one request and renders the first five records
  (all of them when there are fewer), in the order of the response, one line
  "- title (Rating: vote_average)" per record under the fixed heading. Each of the records
  rendered is taken to carry the two fields.
\<close>

theorem popular_movies_first_five:
  assumes "cat PopularMovies = Body (JObj kvs)"
    and "map_of kvs ''results'' = Some (JArr movies)"
    and "\<forall>m\<in>set (take 5 movies). has_field m ''title'' \<and> has_field m ''vote_average''"
  shows "handle_get_popular_movies cat repr =
      (Inr (''The top 5 popular movies now:\<newline>''
            @ join ''\<newline>'' (map (rating_line repr) (take 5 movies))),
       [PopularMovies])"
proof -
  have "collect (movie_line repr) (take 5 movies) = Inr (map (rating_line repr) (take 5 movies))"
    using assms(3) by (intro collect_map movie_line_ok) auto
  then show ?thesis
    using assms(1,2) by (simp add: handle_get_popular_movies_def dict_get_def first_five_def)
qed

theorem popular_movies_first_five_witness:
  "handle_get_popular_movies example_catalog example_repr =
     (Inr (''The top 5 popular movies now:\<newline>''
           @ ''- Dune (Rating: 8)\<newline>- Heat (Rating: 8.3)\<newline>- Alien (Rating: 8)\<newline>''
           @ ''- Jaws (Rating: 7)\<newline>- Ran (Rating: 8)''), [PopularMovies])"
  using popular_movies_first_five [of example_catalog
      "[(''page'', JInt 1), (''results'', JArr example_movies)]" example_movies example_repr]
  by (simp add: example_catalog_def example_movies_def movie_def has_field_def field_def
      rating_line_def fmt_def example_repr_def show_int_def show_nat_digit)

text \<open>
  Claim C7: when the movie search returns a non-empty list, \<open>handle_get_movie_details\<close>
  fetches the details under the identifier of the first result, whatever follows it in
  the list, and renders the fetched title, overview, vote average followed by "/10", and
  release date. The first result is taken to carry \<open>id\<close> and the details the four fields.
\<close>

theorem movie_details_first_match:
  assumes "cat (SearchMovie movie_name) = Body (JObj kvs)"
    and "map_of kvs ''results'' = Some (JArr (first # others))"
    and "has_field first ''id''"
    and "cat (MovieById (fmt repr (field first ''id''))) = Body details"
    and "has_field details ''title''" and "has_field details ''overview''"
    and "has_field details ''vote_average''" and "has_field details ''release_date''"
  shows "handle_get_movie_details cat repr movie_name =
      (Inr (''Details of '' @ quoted (fmt repr (field details ''title'')) @ '' movie:\<newline>''
            @ ''Overview: '' @ fmt repr (field details ''overview'') @ ''\<newline>''
            @ ''Vote average: '' @ fmt repr (field details ''vote_average'') @ ''/10\<newline>''
            @ ''Release date: '' @ fmt repr (field details ''release_date'')),
       [SearchMovie movie_name, MovieById (fmt repr (field first ''id''))])"
proof -
  have rendered: "details_text repr details =
      Inr (''Details of '' @ quoted (fmt repr (field details ''title'')) @ '' movie:\<newline>''
            @ ''Overview: '' @ fmt repr (field details ''overview'') @ ''\<newline>''
            @ ''Vote average: '' @ fmt repr (field details ''vote_average'') @ ''/10\<newline>''
            @ ''Release date: '' @ fmt repr (field details ''release_date''))"
    using assms(5-8) by (simp add: details_text_def subscript_has_field)
  have found: "\<not> falsy (JArr (first # others))"
    by (simp add: falsy_def)
  show ?thesis
    unfolding handle_get_movie_details_def
    using assms(1,2,4) found first_match_id [OF assms(3)] rendered by (simp add: dict_get_def)
qed

theorem movie_details_first_match_witness:
  "handle_get_movie_details example_catalog example_repr (JStr ''Heat'') =
     (Inr (''Details of 'Heat' movie:\<newline>Overview: A heist.\<newline>''
           @ ''Vote average: 8.3/10\<newline>Release date: 1995-12-15''),
      [SearchMovie (JStr ''Heat''), MovieById ''949''])"
proof -
  have id: "fmt example_repr (JInt 949) = ''949''"
    by (simp add: fmt_def show_int_def show_nat_step show_nat_digit)
  show ?thesis
    using movie_details_first_match [of example_catalog "JStr ''Heat''"
        "[(''results'', JArr [JObj [(''id'', JInt 949), (''title'', JStr ''Heat'')],
                              JObj [(''id'', JInt 27), (''title'', JStr ''The Heat'')]])]"
        "JObj [(''id'', JInt 949), (''title'', JStr ''Heat'')]"
        "[JObj [(''id'', JInt 27), (''title'', JStr ''The Heat'')]]"
        example_repr example_details]
    by (simp add: example_catalog_def example_details_def has_field_def field_def id quoted_def)
      (simp add: fmt_def example_repr_def)
qed

text \<open>
  Claim C9: when the search returns no result (an empty \<open>results\<close> list, or a response
  without the field), \<open>handle_get_movie_details\<close> and \<open>handle_get_actor_credits\<close> answer
  that nothing was found, naming the query, and the search is the only request issued:
  no details and no credits are fetched.
\<close>

theorem no_match_stops_after_search:
  "(cat (SearchMovie name) = Body b \<and> dict_get b ''results'' (JArr []) = Inr (JArr []) \<longrightarrow>
      handle_get_movie_details cat repr name =
        (Inr (''No movie titled '' @ quoted (fmt repr name) @ ''.''), [SearchMovie name]))
   \<and> (cat (SearchPerson name) = Body b \<and> dict_get b ''results'' (JArr []) = Inr (JArr []) \<longrightarrow>
      handle_get_actor_credits cat repr sorted_rest name =
        (Inr (''No actor named '' @ quoted (fmt repr name) @ ''.''), [SearchPerson name]))"
  by (simp add: handle_get_movie_details_def handle_get_actor_credits_def falsy_def)

theorem no_match_stops_after_search_witness:
  "handle_get_movie_details example_catalog example_repr (JStr ''Zzzznonexistent'') =
     (Inr ''No movie titled 'Zzzznonexistent'.'', [SearchMovie (JStr ''Zzzznonexistent'')])
   \<and> handle_get_actor_credits example_catalog example_repr example_sorted_rest
       (JStr ''Zzzznonexistent'') =
     (Inr ''No actor named 'Zzzznonexistent'.'', [SearchPerson (JStr ''Zzzznonexistent'')])"
  using no_match_stops_after_search [of example_catalog "JStr ''Zzzznonexistent''"
      "JObj [(''results'', JArr [])]" example_repr example_sorted_rest]
  by (simp add: example_catalog_def dict_get_def quoted_def fmt_def)

text \<open>
  Claim C8: \<open>handle_get_actor_credits\<close> ranks the credit records of the first person
  found by descending popularity, records of equal popularity keeping the order in which
  the catalog returned them, and renders the first five of the ranking (all when there are
  fewer), one line "- title (Character: character)" per record. Popularity is the number
  in the record's \<open>popularity\<close> field, 0 without the field. Whenever \<open>ranked\<close> is a
  rearrangement of the credits whose popularities descend and in which, for every
  popularity, the records having it stand as they do in the response, the answer is the
  heading followed by the lines of the first five records of \<open>ranked\<close>. A popularity that
  is present is taken to be a finite number, and the five records rendered to carry
  \<open>title\<close> and \<open>character\<close>.
\<close>

theorem actor_credits_top_five:
  assumes "cat (SearchPerson actor_name) = Body (JObj kvs)"
    and "map_of kvs ''results'' = Some (JArr (person # others))"
    and "has_field person ''id''"
    and "cat (PersonMovieCredits (fmt repr (field person ''id''))) = Body (JObj body)"
    and "map_of body ''cast'' = Some (JArr credits)"
    and "\<forall>c\<in>set credits. numeric_popularity c"
    and "mset ranked = mset credits"
    and "sorted (rev (map popularity_of ranked))"
    and "\<forall>k. filter (\<lambda>c. popularity_of c = k) ranked
              = filter (\<lambda>c. popularity_of c = k) credits"
    and "\<forall>c\<in>set (take 5 ranked). has_field c ''title'' \<and> has_field c ''character''"
  shows "handle_get_actor_credits cat repr sorted_rest actor_name =
      (Inr (quoted (fmt repr actor_name) @ '' (ID: '' @ fmt repr (field person ''id'') @ '')''
            @ [CHR 0x27] @ ''s top movies:\<newline>''
            @ join ''\<newline>'' (map (character_line repr) (take 5 ranked))),
       [SearchPerson actor_name, PersonMovieCredits (fmt repr (field person ''id''))])"
proof -
  have "descending (number_key popularity) credits = ranked"
    using assms(6-9) by (rule ranking_unique)
  then have srt: "sorted_reverse sorted_rest popularity credits = Inr ranked"
    using assms(6) by (simp add: sorted_reverse_popularity)
  have "collect (credit_line repr) (take 5 ranked)
      = Inr (map (character_line repr) (take 5 ranked))"
    using assms(10) by (intro collect_map credit_line_ok) simp_all
  with srt assms(5)
  have rendered: "credits_text repr sorted_rest actor_name (field person ''id'') (JObj body) =
      Inr (quoted (fmt repr actor_name) @ '' (ID: '' @ fmt repr (field person ''id'') @ '')''
           @ [CHR 0x27] @ ''s top movies:\<newline>''
           @ join ''\<newline>'' (map (character_line repr) (take 5 ranked)))"
    by (simp add: credits_text_def dict_get_def iterate_def)
  have found: "\<not> falsy (JArr (person # others))"
    by (simp add: falsy_def)
  show ?thesis
    unfolding handle_get_actor_credits_def
    using assms(1,2,4) found first_match_id [OF assms(3)] rendered by (simp add: dict_get_def)
qed

theorem actor_credits_top_five_witness:
  "handle_get_actor_credits example_catalog example_repr example_sorted_rest (JStr ''Al Pacino'')
     = (Inr ([CHR 0x27] @ ''Al Pacino' (ID: 1158)'s top movies:\<newline>''
           @ ''- Scarface (Character: Tony)\<newline>- Donnie Brasco (Character: Lefty)\<newline>''
           @ ''- Heat (Character: Vincent)\<newline>- Insomnia (Character: Will)\<newline>''
           @ ''- Ricochet (Character: Nick)''),
        [SearchPerson (JStr ''Al Pacino''), PersonMovieCredits ''1158''])"
proof -
  have id: "fmt example_repr (JInt 1158) = ''1158''"
    by (simp add: fmt_def show_int_def show_nat_step show_nat_digit)
  have numeric: "\<forall>c\<in>set example_credits. numeric_popularity c"
    by (simp add: example_credits_def credit_def numeric_popularity_def is_number_def)
  have perm: "mset example_ranked = mset example_credits"
    by (simp add: example_ranked_def example_credits_def)
  have desc: "sorted (rev (map popularity_of example_ranked))"
    by (simp add: example_ranked_def credit_def popularity_of_def has_field_def field_def
        value_of_def)
  have stable: "\<forall>k. filter (\<lambda>c. popularity_of c = k) example_ranked
      = filter (\<lambda>c. popularity_of c = k) example_credits"
    by (simp add: example_ranked_def example_credits_def credit_def popularity_of_def
        has_field_def field_def value_of_def)
  have fields: "\<forall>c\<in>set (take 5 example_ranked).
      has_field c ''title'' \<and> has_field c ''character''"
    by (simp add: example_ranked_def credit_def has_field_def)
  have lines: "map (character_line example_repr) (take 5 example_ranked) =
      [''- Scarface (Character: Tony)'', ''- Donnie Brasco (Character: Lefty)'',
       ''- Heat (Character: Vincent)'', ''- Insomnia (Character: Will)'',
       ''- Ricochet (Character: Nick)'']"
    by (simp add: example_ranked_def credit_def character_line_def field_def fmt_def)
  show ?thesis
    using actor_credits_top_five [of example_catalog "JStr ''Al Pacino''"
        "[(''results'', JArr [JObj [(''id'', JInt 1158), (''name'', JStr ''Al Pacino'')]])]"
        "JObj [(''id'', JInt 1158), (''name'', JStr ''Al Pacino'')]" "[]"
        example_repr "[(''cast'', JArr example_credits)]" example_credits example_ranked
        example_sorted_rest] numeric perm desc stable fields
    by (simp add: example_catalog_def has_field_def field_def id quoted_def lines)
      (simp add: fmt_def)
qed

text \<open>
  Claim C10: a credit record without a \<open>popularity\<close> field is ranked as if its popularity
  were 0. Ranking the credits gives the same as ranking them with the missing field set
  to 0; in the ranking every record whose \<open>popularity\<close> field holds a number above 0
  stands before every record without the field; and the records without the field keep
  the order in which the catalog returned them. A popularity that is present is taken to
  be a finite number.
\<close>

theorem missing_popularity_ranks_as_zero:
  assumes "\<forall>c\<in>set credits. numeric_popularity c"
  shows "\<exists>ranked.
      sorted_reverse sorted_rest popularity credits = Inr ranked
    \<and> sorted_reverse sorted_rest popularity (map with_zero credits)
        = Inr (map with_zero ranked)
    \<and> (\<forall>i<length ranked. \<forall>j<length ranked.
          lacks_popularity (ranked ! i) \<and> positive_popularity (ranked ! j) \<longrightarrow> j < i)
    \<and> filter lacks_popularity ranked = filter lacks_popularity credits"
proof -
  define ranked where "ranked = descending (number_key popularity) credits"
  have len: "length ranked = length credits"
    by (simp add: ranked_def length_descending)
  have mem: "ranked ! j \<in> set credits" if "j < length ranked" for j
    using that nth_mem [of j ranked] by (simp add: ranked_def set_descending)
  have one: "sorted_reverse sorted_rest popularity credits = Inr ranked"
    using assms by (simp add: ranked_def sorted_reverse_popularity)
  have "\<exists>k. popularity x = Inr k \<and> number k \<noteq> None"
    if "x \<in> set (map with_zero credits)" for x
  proof -
    from that obtain c where "c \<in> set credits" and "x = with_zero c"
      by auto
    then show ?thesis
      using assms numeric_with_zero by blast
  qed
  then have "sorted_reverse sorted_rest popularity (map with_zero credits)
      = Inr (descending (number_key popularity) (map with_zero credits))"
    by (rule sorted_reverse_numbers)
  then have two: "sorted_reverse sorted_rest popularity (map with_zero credits)
      = Inr (map with_zero ranked)"
    by (simp add: descending_map key_with_zero ranked_def)
  have three: "j < i"
    if "i < length ranked" "j < length ranked" "lacks_popularity (ranked ! i)"
      "positive_popularity (ranked ! j)" for i j
  proof (rule ccontr)
    assume "\<not> j < i"
    then have "i \<le> j" by simp
    then have "number_key popularity (ranked ! j) \<le> number_key popularity (ranked ! i)"
      using that(2) len unfolding ranked_def by (intro descending_nth) simp_all
    moreover have "number_key popularity (ranked ! i) = 0"
      using that(3) by (rule key_lacks)
    moreover have "0 < number_key popularity (ranked ! j)"
      using assms mem [OF that(2)] that(4) by (intro key_positive) simp_all
    ultimately show False by simp
  qed
  have four: "filter lacks_popularity ranked = filter lacks_popularity credits"
    unfolding ranked_def by (rule filter_descending [where k = 0]) (simp add: key_lacks)
  from one two three four show ?thesis by blast
qed

theorem missing_popularity_ranks_as_zero_witness:
  "sorted_reverse example_sorted_rest popularity example_credits = Inr example_ranked
   \<and> sorted_reverse example_sorted_rest popularity (map with_zero example_credits)
       = Inr (map with_zero example_ranked)
   \<and> map positive_popularity example_ranked = [True, True, True, True, True, False, False]
   \<and> map lacks_popularity example_ranked = [False, False, False, False, False, True, True]
   \<and> filter lacks_popularity example_ranked
       = [credit ''Serpico'' ''Frank'' None, JObj [(''character'', JStr ''Steve'')]]"
proof -
  have numeric: "\<forall>c\<in>set example_credits. numeric_popularity c"
    by (simp add: example_credits_def credit_def numeric_popularity_def is_number_def)
  have lacking: "filter lacks_popularity example_credits
      = [credit ''Serpico'' ''Frank'' None, JObj [(''character'', JStr ''Steve'')]]"
    by (simp add: example_credits_def credit_def lacks_popularity_def)
  from missing_popularity_ranks_as_zero [OF numeric, of example_sorted_rest]
  obtain ranked where
    r: "sorted_reverse example_sorted_rest popularity example_credits = Inr ranked"
    and rest: "sorted_reverse example_sorted_rest popularity (map with_zero example_credits)
        = Inr (map with_zero ranked)"
      "\<forall>i<length ranked. \<forall>j<length ranked.
         lacks_popularity (ranked ! i) \<and> positive_popularity (ranked ! j) \<longrightarrow> j < i"
      "filter lacks_popularity ranked = filter lacks_popularity example_credits"
    by blast
  have "ranked = example_ranked"
    using r by (simp add: example_ranking)
  moreover have "map positive_popularity example_ranked
      = [True, True, True, True, True, False, False]"
    by (simp add: example_ranked_def credit_def positive_popularity_def has_field_def
        field_def value_of_def)
  moreover have "map lacks_popularity example_ranked
      = [False, False, False, False, False, True, True]"
    by (simp add: example_ranked_def credit_def lacks_popularity_def)
  ultimately show ?thesis
    using r rest lacking by simp
qed

end
